theory Spec2Isabelle
  imports Main "HOL-Library.Word"
begin

unbundle bit_operations_syntax

section \<open>SlowDisk: a shallow embedding of slowdisk.c\<close>

text \<open>
  The module keeps five global variables (\<open>minWait\<close>, \<open>maxWait\<close>, \<open>sys_call_table\<close>,
  \<open>orig_sys_write\<close>, \<open>orig_sys_read\<close>) and works on kernel memory and on the control
  register \<open>cr0\<close>. The model passes all of them around in one record. \<open>ulong\<close> is the
  kernel's \<open>unsigned long\<close>, 64 bits on x86-64; arithmetic on it wraps around. The
  messages written with printk are left out.
\<close>

subsection \<open>Data\<close>

type_synonym ulong = "64 word"

definition ULONG_MAX :: ulong where
  "ULONG_MAX = - 1"

text \<open>
  The constants that come from the kernel headers and from the linker, none of which is
  fixed by slowdisk.c: \<open>PAGE_OFFSET\<close>, the system call numbers \<open>__NR_read\<close>,
  \<open>__NR_write\<close>, \<open>__NR_close\<close>, the address of \<open>sys_close\<close> and the addresses at which
  the two hooks are loaded. They are parameters of the model.
\<close>

record kconsts =
  PAGE_OFFSET :: ulong
  NR_read :: ulong
  NR_write :: ulong
  NR_close :: ulong
  sys_close :: ulong
  write_hook_addr :: ulong
  read_hook_addr :: ulong

text \<open>
  The state: the module's globals, the memory as the \<open>ulong\<close> stored at each byte
  address, the set of addresses that are mapped, the set of addresses on read-only
  pages, and \<open>cr0\<close>. \<open>NULL\<close> is address 0.
\<close>

record state =
  minWait :: ulong
  maxWait :: ulong
  sys_call_table :: ulong
  orig_sys_write :: ulong
  orig_sys_read :: ulong
  mem :: "ulong \<Rightarrow> ulong"
  mapped :: "ulong \<Rightarrow> bool"
  readonly :: "ulong \<Rightarrow> bool"
  cr0 :: ulong

text \<open>
  What stops the kernel instead of returning: a dereference of \<open>NULL\<close>, an access to
  an address that is not mapped, a write to a read-only page while the write-protect
  bit of \<open>cr0\<close> (bit 16) is set, and a division by zero.
\<close>

datatype fault = NullDeref | PageFault | ProtectionFault | DivideError

subsection \<open>Memory and cr0\<close>

text \<open>
  \<open>p[i]\<close> for a \<open>ulong*\<close> \<open>p\<close>: the slot is \<open>sizeof(ulong) = 8\<close> bytes wide, at
  address \<open>p + 8 * i\<close>. Reading or writing it faults when \<open>p\<close> is \<open>NULL\<close> and when
  the address is not mapped.
\<close>

definition slot :: "ulong \<Rightarrow> ulong \<Rightarrow> ulong" where
  "slot p i = p + 8 * i"

definition load :: "state \<Rightarrow> ulong \<Rightarrow> ulong \<Rightarrow> fault + ulong" where
  "load s p i =
     (if p = 0 then Inl NullDeref
      else if \<not> mapped s (slot p i) then Inl PageFault
      else Inr (mem s (slot p i)))"

definition store :: "state \<Rightarrow> ulong \<Rightarrow> ulong \<Rightarrow> ulong \<Rightarrow> fault + state" where
  "store s p i v =
     (if p = 0 then Inl NullDeref
      else if \<not> mapped s (slot p i) then Inl PageFault
      else if readonly s (slot p i) \<and> cr0 s AND 0x10000 \<noteq> 0 then Inl ProtectionFault
      else Inr (s\<lparr>mem := (mem s)(slot p i := v)\<rparr>))"

definition read_cr0 :: "state \<Rightarrow> ulong" where
  "read_cr0 s = cr0 s"

definition write_cr0 :: "state \<Rightarrow> ulong \<Rightarrow> state" where
  "write_cr0 s v = s\<lparr>cr0 := v\<rparr>"

subsection \<open>slowdisk_init, first part: the wait range\<close>

text \<open>
  Lines 51 to 58 of slowdisk_init. \<open>minWait < 0\<close> is written as in the source; on an
  unsigned value it never holds.
\<close>

definition normalize_range :: "state \<Rightarrow> state" where
  "normalize_range s =
     (if minWait s < 0 \<or> minWait s > maxWait s then s\<lparr>minWait := 500, maxWait := 1000\<rparr>
      else if maxWait s = 0 then s\<lparr>maxWait := 1\<rparr>
      else s)"

subsection \<open>get_syscall_table\<close>

text \<open>
  The loop of get_syscall_table, with the global \<open>sys_call_table\<close> as its variable.
  \<open>sys_call_table++\<close> adds 8 to the address and wraps around at the top of the address
  space. The loop need not end: \<open>None\<close> is the run that never returns.
\<close>

partial_function (option) scan_loop :: "kconsts \<Rightarrow> state \<Rightarrow> (fault + state) option" where
  "scan_loop k s =
     (if sys_call_table s < ULONG_MAX then
        (case load s (sys_call_table s) (NR_close k) of
           Inl f \<Rightarrow> Some (Inl f)
         | Inr v \<Rightarrow>
             if v = sys_close k then Some (Inr s)
             else scan_loop k (s\<lparr>sys_call_table := sys_call_table s + 8\<rparr>))
      else Some (Inr (s\<lparr>sys_call_table := 0\<rparr>)))"

declare scan_loop.simps [code]

definition get_syscall_table :: "kconsts \<Rightarrow> state \<Rightarrow> (fault + state) option" where
  "get_syscall_table k s = scan_loop k (s\<lparr>sys_call_table := PAGE_OFFSET k\<rparr>)"

subsection \<open>slowdisk_init and slowdisk_exit\<close>

text \<open>Lines 70 to 76 of slowdisk_init: save the two entries, then patch them.\<close>

definition install_hooks :: "kconsts \<Rightarrow> state \<Rightarrow> fault + state" where
  "install_hooks k s =
     (case load s (sys_call_table s) (NR_read k) of
        Inl f \<Rightarrow> Inl f
      | Inr r \<Rightarrow>
          (case load (s\<lparr>orig_sys_read := r\<rparr>) (sys_call_table s) (NR_write k) of
             Inl f \<Rightarrow> Inl f
           | Inr w \<Rightarrow>
               (let s2 = s\<lparr>orig_sys_read := r, orig_sys_write := w\<rparr>;
                    c = read_cr0 s2;
                    s3 = write_cr0 s2 (c AND NOT 0x10000)
                in case store s3 (sys_call_table s3) (NR_write k) (write_hook_addr k) of
                     Inl f \<Rightarrow> Inl f
                   | Inr s4 \<Rightarrow>
                       (case store s4 (sys_call_table s4) (NR_read k) (read_hook_addr k) of
                          Inl f \<Rightarrow> Inl f
                        | Inr s5 \<Rightarrow> Inr (write_cr0 s5 c)))))"

text \<open>
  slowdisk_init returns its status (\<open>-1\<close> or \<open>0\<close>) and the state it leaves. \<open>None\<close>: the
  search for the table never returned.
\<close>

definition slowdisk_init :: "kconsts \<Rightarrow> state \<Rightarrow> (fault + int \<times> state) option" where
  "slowdisk_init k s =
     (case get_syscall_table k (normalize_range s) of
        None \<Rightarrow> None
      | Some (Inl f) \<Rightarrow> Some (Inl f)
      | Some (Inr s1) \<Rightarrow>
          if sys_call_table s1 = 0 then Some (Inr (- 1, s1))
          else (case install_hooks k s1 of
                  Inl f \<Rightarrow> Some (Inl f)
                | Inr s2 \<Rightarrow> Some (Inr (0, s2\<lparr>maxWait := maxWait s2 + 1\<rparr>))))"

definition slowdisk_exit :: "kconsts \<Rightarrow> state \<Rightarrow> fault + state" where
  "slowdisk_exit k s =
     (let c = read_cr0 s;
          s1 = write_cr0 s (c AND NOT 0x10000)
      in case store s1 (sys_call_table s1) (NR_write k) (orig_sys_write s1) of
           Inl f \<Rightarrow> Inl f
         | Inr s2 \<Rightarrow>
             (case store s2 (sys_call_table s2) (NR_read k) (orig_sys_read s2) of
                Inl f \<Rightarrow> Inl f
              | Inr s3 \<Rightarrow> Inr (write_cr0 s3 c)))"

subsection \<open>random_wait\<close>

text \<open>
  The busy-work loop of random_wait, from the state \<open>(i, dumbSum)\<close>. The last argument
  counts the iterations executed; it is not a variable of the source.
\<close>

function busy_loop :: "ulong \<Rightarrow> ulong \<Rightarrow> ulong \<Rightarrow> nat \<Rightarrow> ulong \<times> nat" where
  "busy_loop wait i dumbSum n =
     (if i < wait then busy_loop wait (i + 1) ((dumbSum + i) * (i div 2)) (Suc n)
      else (dumbSum, n))"
  by pat_completeness auto
termination
proof (relation "measure (\<lambda>(wait, i, dumbSum, n). unat wait - unat i)")
  show "wf (measure (\<lambda>(wait, i, dumbSum, n). unat wait - unat i))"
    by simp
next
  fix wait i :: ulong and dumbSum :: ulong and n :: nat
  assume lt: "i < wait"
  then have "unat (i + 1) = Suc (unat i)"
    by unat_arith
  moreover from lt have "unat i < unat wait"
    by (simp add: word_less_nat_alt)
  ultimately show "((wait, i + 1, (dumbSum + i) * (i div 2), Suc n), (wait, i, dumbSum, n))
      \<in> measure (\<lambda>(wait, i, dumbSum, n). unat wait - unat i)"
    by simp
qed

declare busy_loop.simps [simp del]

text \<open>
  random_wait returns the value of \<open>wait\<close>, paired here with the number of iterations its
  loop ran. \<open>r\<close> is the value that get_random_bytes writes into \<open>wait\<close>. The remainder
  by \<open>waitInterval = 0\<close> is a divide error.
\<close>

definition random_wait :: "state \<Rightarrow> ulong \<Rightarrow> fault + ulong \<times> nat" where
  "random_wait s r =
     (let waitInterval = maxWait s - minWait s in
      if waitInterval = 0 then Inl DivideError
      else (let wait = (r mod waitInterval) + minWait s
            in Inr (wait, snd (busy_loop wait 0 0 0))))"

subsection \<open>The hooks\<close>

text \<open>
  A handler of type \<open>rw_fn_t\<close> takes \<open>(fd, buf, count)\<close>, acts on the world outside the
  module (files, user buffers) and returns a \<open>long\<close>. \<open>call a\<close> is the handler that an
  indirect call to address \<open>a\<close> runs.
\<close>

type_synonym 'w rw_fn = "32 word \<Rightarrow> ulong \<Rightarrow> ulong \<Rightarrow> 'w \<Rightarrow> 64 word \<times> 'w"

definition write_hook ::
  "(ulong \<Rightarrow> 'w rw_fn) \<Rightarrow> state \<Rightarrow> ulong \<Rightarrow> 32 word \<Rightarrow> ulong \<Rightarrow> ulong \<Rightarrow> 'w \<Rightarrow> fault + 64 word \<times> 'w" where
  "write_hook call s r fd buf count w =
     (case random_wait s r of
        Inl f \<Rightarrow> Inl f
      | Inr _ \<Rightarrow> Inr (call (orig_sys_write s) fd buf count w))"

definition read_hook ::
  "(ulong \<Rightarrow> 'w rw_fn) \<Rightarrow> state \<Rightarrow> ulong \<Rightarrow> 32 word \<Rightarrow> ulong \<Rightarrow> ulong \<Rightarrow> 'w \<Rightarrow> fault + 64 word \<times> 'w" where
  "read_hook call s r fd buf count w =
     (case random_wait s r of
        Inl f \<Rightarrow> Inl f
      | Inr _ \<Rightarrow> Inr (call (orig_sys_read s) fd buf count w))"

subsection \<open>A concrete kernel\<close>

text \<open>
  Values for the examples: the constants of an x86-64 kernel, a freshly loaded module
  with parameters \<open>lo\<close> and \<open>hi\<close> in a memory that holds the system call table two
  slots above \<open>PAGE_OFFSET\<close>, and the same module in a memory without any table.
  Every address is mapped, every page is read-only and \<open>cr0\<close> has its write-protect
  bit set.
\<close>

definition x86_64 :: kconsts where
  "x86_64 = \<lparr>PAGE_OFFSET = 0xffff880000000000, NR_read = 0, NR_write = 1, NR_close = 3,
      sys_close = 0xffffffff811b2c40, write_hook_addr = 0xffffffffa0000100,
      read_hook_addr = 0xffffffffa0000140\<rparr>"

definition loaded :: "ulong \<Rightarrow> ulong \<Rightarrow> state" where
  "loaded lo hi = \<lparr>minWait = lo, maxWait = hi, sys_call_table = 0, orig_sys_write = 0,
      orig_sys_read = 0,
      mem = (\<lambda>_. 0)(0xffff880000000010 := 0xffffffff811b4a10,
                     0xffff880000000018 := 0xffffffff811b4ab0,
                     0xffff880000000028 := 0xffffffff811b2c40),
      mapped = (\<lambda>_. True), readonly = (\<lambda>_. True), cr0 = 0x80050033\<rparr>"

definition tableless :: "ulong \<Rightarrow> ulong \<Rightarrow> state" where
  "tableless lo hi = \<lparr>minWait = lo, maxWait = hi, sys_call_table = 0, orig_sys_write = 0,
      orig_sys_read = 0, mem = (\<lambda>_. 0), mapped = (\<lambda>_. True), readonly = (\<lambda>_. True),
      cr0 = 0x80050033\<rparr>"

text \<open>
  \<open>hooked lo hi\<close> is the module after a successful load from \<open>loaded\<close>: both slots
  patched, the two original entries saved. \<open>located lo hi\<close> is the module between
  the two: the table found, nothing patched yet.
\<close>

definition located :: "ulong \<Rightarrow> ulong \<Rightarrow> state" where
  "located lo hi = (loaded lo hi)\<lparr>sys_call_table := 0xffff880000000010\<rparr>"

definition hooked :: "ulong \<Rightarrow> ulong \<Rightarrow> state" where
  "hooked lo hi = \<lparr>minWait = lo, maxWait = hi, sys_call_table = 0xffff880000000010,
      orig_sys_write = 0xffffffff811b4ab0, orig_sys_read = 0xffffffff811b4a10,
      mem = (\<lambda>_. 0)(0xffff880000000010 := 0xffffffffa0000140,
                     0xffff880000000018 := 0xffffffffa0000100,
                     0xffff880000000028 := 0xffffffff811b2c40),
      mapped = (\<lambda>_. True), readonly = (\<lambda>_. True), cr0 = 0x80050033\<rparr>"

section \<open>Normalization of the wait range\<close>

text \<open>
  C7. When \<open>minWait > maxWait\<close> at startup, the normalization at the head of
  slowdisk_init leaves exactly \<open>(minWait, maxWait) = (500, 1000)\<close>.
\<close>

theorem normalize_inverted_range:
  "minWait s > maxWait s \<Longrightarrow>
     minWait (normalize_range s) = 500 \<and> maxWait (normalize_range s) = 1000"
  by (simp add: normalize_range_def)

theorem normalize_inverted_range_witness:
  "minWait (tableless 7 3) > maxWait (tableless 7 3)
   \<and> minWait (normalize_range (tableless 7 3)) = 500
   \<and> maxWait (normalize_range (tableless 7 3)) = 1000"
  using normalize_inverted_range [of "tableless 7 3"]
  by (simp add: tableless_def)

section \<open>Auxiliary facts\<close>

subsection \<open>Memory, cr0 and the two patching steps\<close>

lemma wp_cleared: "((c::ulong) AND - 65537) AND 65536 = 0"
proof -
  have "((c::ulong) AND NOT 0x10000) AND 0x10000 = 0"
    by (simp only: and.assoc bit.conj_cancel_left and_zero_eq)
  then show ?thesis by simp
qed

lemma normalize_range_fields [simp]:
  "mem (normalize_range s) = mem s"
  "mapped (normalize_range s) = mapped s"
  "cr0 (normalize_range s) = cr0 s"
  "readonly (normalize_range s) = readonly s"
  "orig_sys_write (normalize_range s) = orig_sys_write s"
  "orig_sys_read (normalize_range s) = orig_sys_read s"
  "sys_call_table (normalize_range s) = sys_call_table s"
  by (simp_all add: normalize_range_def)

text \<open>
  The patching step returns exactly when the table pointer is not \<open>NULL\<close> and its read
  and write slots are mapped; so does slowdisk_exit.
\<close>

lemma install_hooks_eq:
  assumes "sys_call_table s \<noteq> 0"
    and "mapped s (slot (sys_call_table s) (NR_read k))"
    and "mapped s (slot (sys_call_table s) (NR_write k))"
  shows "install_hooks k s =
     Inr (s\<lparr>orig_sys_write := mem s (slot (sys_call_table s) (NR_write k)),
            orig_sys_read := mem s (slot (sys_call_table s) (NR_read k)),
            mem := (mem s)(slot (sys_call_table s) (NR_write k) := write_hook_addr k,
                           slot (sys_call_table s) (NR_read k) := read_hook_addr k)\<rparr>)"
  using assms
  by (simp add: install_hooks_def load_def store_def read_cr0_def write_cr0_def
      wp_cleared Let_def)

lemma install_hooks_returns:
  assumes "install_hooks k s = Inr s'"
  shows "sys_call_table s \<noteq> 0"
    and "mapped s (slot (sys_call_table s) (NR_read k))"
    and "mapped s (slot (sys_call_table s) (NR_write k))"
  using assms
  by (auto simp: install_hooks_def load_def split: if_splits sum.splits)

lemma slowdisk_exit_eq:
  assumes "sys_call_table s \<noteq> 0"
    and "mapped s (slot (sys_call_table s) (NR_read k))"
    and "mapped s (slot (sys_call_table s) (NR_write k))"
  shows "slowdisk_exit k s =
     Inr (s\<lparr>mem := (mem s)(slot (sys_call_table s) (NR_write k) := orig_sys_write s,
                           slot (sys_call_table s) (NR_read k) := orig_sys_read s)\<rparr>)"
  using assms
  by (simp add: slowdisk_exit_def store_def read_cr0_def write_cr0_def wp_cleared Let_def)

lemma slowdisk_exit_null:
  "sys_call_table s = 0 \<Longrightarrow> slowdisk_exit k s = Inl NullDeref"
  by (simp add: slowdisk_exit_def store_def read_cr0_def write_cr0_def)

subsection \<open>The search for the table\<close>

text \<open>A pointer that is a multiple of 8 is never \<open>ULONG_MAX\<close>, which is odd.\<close>

lemma aligned_lt_max: "8 dvd (p::ulong) \<Longrightarrow> p < ULONG_MAX"
proof -
  assume a: "8 dvd p"
  have "even p" using dvd_trans [of 2 8 p] a by simp
  moreover have "odd (- 1 :: ulong)" by simp
  ultimately have "p \<noteq> - 1" by auto
  then show ?thesis by (simp add: ULONG_MAX_def word_order.not_eq_extremum)
qed

text \<open>
  Without an anchor anywhere, the search that starts \<open>n\<close> slots below the top of the
  address space ends in a fault: at the first address that is not mapped, or, when
  every address is mapped, at address 0, which the pointer reaches by wrapping around.
\<close>

lemma scan_loop_down:
  assumes "\<forall>q. mem s (slot q (NR_close k)) \<noteq> sys_close k"
  shows "sys_call_table s = - (8 * of_nat n) \<Longrightarrow>
    \<exists>f. scan_loop k s = Some (Inl f) \<and> ((\<forall>a. mapped s a) \<longrightarrow> f = NullDeref)"
  using assms
proof (induction n arbitrary: s)
  case 0
  then have z: "sys_call_table s = 0" by simp
  then have "sys_call_table s < ULONG_MAX" by (simp add: aligned_lt_max)
  with z have "scan_loop k s = Some (Inl NullDeref)"
    by (subst scan_loop.simps) (simp add: load_def)
  then show ?case by simp
next
  case (Suc n)
  let ?p = "sys_call_table s"
  let ?s' = "s\<lparr>sys_call_table := ?p + 8\<rparr>"
  have "8 dvd ?p" using Suc.prems(1) by simp
  then have lt: "?p < ULONG_MAX" by (rule aligned_lt_max)
  show ?case
  proof (cases "?p = 0")
    case True
    with lt have "scan_loop k s = Some (Inl NullDeref)"
      by (subst scan_loop.simps) (simp add: load_def)
    then show ?thesis by simp
  next
    case False
    show ?thesis
    proof (cases "mapped s (slot ?p (NR_close k))")
      case unmapped: False
      with lt \<open>?p \<noteq> 0\<close> have "scan_loop k s = Some (Inl PageFault)"
        by (subst scan_loop.simps) (simp add: load_def)
      with unmapped show ?thesis by auto
    next
      case True
      have "?p + 8 = - (8 * of_nat (Suc n)) + 8"
        using Suc.prems(1) by simp
      also have "\<dots> = - (8 * of_nat n)"
        by (simp add: algebra_simps)
      finally have "sys_call_table ?s' = - (8 * of_nat n)"
        by simp
      moreover have "\<forall>q. mem ?s' (slot q (NR_close k)) \<noteq> sys_close k"
        using Suc.prems(2) by simp
      ultimately have "\<exists>f. scan_loop k ?s' = Some (Inl f) \<and>
          ((\<forall>a. mapped ?s' a) \<longrightarrow> f = NullDeref)"
        by (rule Suc.IH)
      moreover have "scan_loop k s = scan_loop k ?s'"
        using lt False True Suc.prems(2) by (subst scan_loop.simps) (simp add: load_def)
      ultimately show ?thesis by simp
    qed
  qed
qed

lemma scan_loop_no_anchor:
  assumes "\<forall>q. mem s (slot q (NR_close k)) \<noteq> sys_close k"
    and "8 dvd sys_call_table s"
  shows "\<exists>f. scan_loop k s = Some (Inl f) \<and> ((\<forall>a. mapped s a) \<longrightarrow> f = NullDeref)"
proof -
  from assms(2) obtain q where q: "sys_call_table s = 8 * q" ..
  have "sys_call_table s = - (8 * of_nat (unat (- q)))"
    by (simp add: q)
  then show ?thesis using assms(1) by (rule scan_loop_down [rotated])
qed

text \<open>
  From a \<open>PAGE_OFFSET\<close> that is a multiple of 8, in a memory without the anchor,
  get_syscall_table never returns: it ends in a fault, whatever is mapped.
\<close>

lemma get_syscall_table_no_anchor:
  assumes "\<forall>q. mem s (slot q (NR_close k)) \<noteq> sys_close k"
    and "8 dvd PAGE_OFFSET k"
  shows "\<exists>f. get_syscall_table k s = Some (Inl f) \<and> ((\<forall>a. mapped s a) \<longrightarrow> f = NullDeref)"
proof -
  let ?s = "s\<lparr>sys_call_table := PAGE_OFFSET k\<rparr>"
  have "\<forall>q. mem ?s (slot q (NR_close k)) \<noteq> sys_close k" using assms(1) by simp
  moreover have "8 dvd sys_call_table ?s" using assms(2) by simp
  ultimately have "\<exists>f. scan_loop k ?s = Some (Inl f) \<and>
      ((\<forall>a. mapped ?s a) \<longrightarrow> f = NullDeref)"
    by (rule scan_loop_no_anchor)
  then show ?thesis by (simp add: get_syscall_table_def)
qed

text \<open>
  A search that returns has changed nothing but \<open>sys_call_table\<close>, and a pointer it
  returns other than \<open>NULL\<close> has the anchor in its \<open>__NR_close\<close> slot.
\<close>

lemma scan_loop_result:
  assumes "scan_loop k s = Some y"
  shows "\<forall>s'. y = Inr s' \<longrightarrow>
     s' = s\<lparr>sys_call_table := sys_call_table s'\<rparr> \<and>
     (sys_call_table s' \<noteq> 0 \<longrightarrow>
        mem s (slot (sys_call_table s') (NR_close k)) = sys_close k)"
proof (rule scan_loop.raw_induct [where P = "\<lambda>k s y. \<forall>s'. y = Inr s' \<longrightarrow>
     s' = s\<lparr>sys_call_table := sys_call_table s'\<rparr> \<and>
     (sys_call_table s' \<noteq> 0 \<longrightarrow>
        mem s (slot (sys_call_table s') (NR_close k)) = sys_close k)", OF _ assms])
  fix f :: "kconsts \<Rightarrow> state \<Rightarrow> (fault + state) option" and k s y
  assume IH: "\<And>k s y. f k s = Some y \<Longrightarrow> \<forall>s'. y = Inr s' \<longrightarrow>
     s' = s\<lparr>sys_call_table := sys_call_table s'\<rparr> \<and>
     (sys_call_table s' \<noteq> 0 \<longrightarrow>
        mem s (slot (sys_call_table s') (NR_close k)) = sys_close k)"
  assume eq: "(if sys_call_table s < ULONG_MAX
      then case load s (sys_call_table s) (NR_close k) of
           Inl f \<Rightarrow> Some (Inl f)
           | Inr v \<Rightarrow>
               if v = sys_close k then Some (Inr s)
               else f k (s\<lparr>sys_call_table := sys_call_table s + 8\<rparr>)
      else Some (Inr (s\<lparr>sys_call_table := 0\<rparr>))) = Some y"
  show "\<forall>s'. y = Inr s' \<longrightarrow>
     s' = s\<lparr>sys_call_table := sys_call_table s'\<rparr> \<and>
     (sys_call_table s' \<noteq> 0 \<longrightarrow>
        mem s (slot (sys_call_table s') (NR_close k)) = sys_close k)"
  proof (cases "sys_call_table s < ULONG_MAX")
    case False
    with eq show ?thesis by auto
  next
    case True
    note lt = this
    show ?thesis
    proof (cases "sys_call_table s = 0")
      case True
      with lt eq show ?thesis by (auto simp: load_def)
    next
      case nz: False
      show ?thesis
      proof (cases "mapped s (slot (sys_call_table s) (NR_close k))")
        case False
        with lt nz eq show ?thesis by (auto simp: load_def)
      next
        case mp: True
        show ?thesis
        proof (cases "mem s (slot (sys_call_table s) (NR_close k)) = sys_close k")
          case True
          with lt nz mp eq show ?thesis by (auto simp: load_def)
        next
          case False
          let ?n = "s\<lparr>sys_call_table := sys_call_table s + 8\<rparr>"
          from lt nz mp False eq have "f k ?n = Some y"
            by (simp add: load_def)
          from IH [OF this] show ?thesis by simp
        qed
      qed
    qed
  qed
qed

lemma get_syscall_table_result:
  assumes "get_syscall_table k s = Some (Inr s')"
  shows "s' = s\<lparr>sys_call_table := sys_call_table s'\<rparr>"
    and "sys_call_table s' \<noteq> 0 \<Longrightarrow>
           mem s (slot (sys_call_table s') (NR_close k)) = sys_close k"
  using scan_loop_result [OF assms [unfolded get_syscall_table_def]] by simp_all

text \<open>
  From a \<open>PAGE_OFFSET\<close> that is a multiple of 8, get_syscall_table never returns
  \<open>NULL\<close>: the pointer stays a multiple of 8 and the loop has no exit but the anchor.
\<close>

lemma scan_loop_aligned_not_null:
  assumes "scan_loop k s = Some y"
  shows "8 dvd sys_call_table s \<longrightarrow> (\<forall>s'. y = Inr s' \<longrightarrow> sys_call_table s' \<noteq> 0)"
proof (rule scan_loop.raw_induct [where P = "\<lambda>k s y.
     8 dvd sys_call_table s \<longrightarrow> (\<forall>s'. y = Inr s' \<longrightarrow> sys_call_table s' \<noteq> 0)", OF _ assms])
  fix f :: "kconsts \<Rightarrow> state \<Rightarrow> (fault + state) option" and k s y
  assume IH: "\<And>k s y. f k s = Some y \<Longrightarrow>
     8 dvd sys_call_table s \<longrightarrow> (\<forall>s'. y = Inr s' \<longrightarrow> sys_call_table s' \<noteq> 0)"
  assume eq: "(if sys_call_table s < ULONG_MAX
      then case load s (sys_call_table s) (NR_close k) of
           Inl f \<Rightarrow> Some (Inl f)
           | Inr v \<Rightarrow>
               if v = sys_close k then Some (Inr s)
               else f k (s\<lparr>sys_call_table := sys_call_table s + 8\<rparr>)
      else Some (Inr (s\<lparr>sys_call_table := 0\<rparr>))) = Some y"
  show "8 dvd sys_call_table s \<longrightarrow> (\<forall>s'. y = Inr s' \<longrightarrow> sys_call_table s' \<noteq> 0)"
  proof (intro impI allI)
    fix s'
    assume al: "8 dvd sys_call_table s" and y: "y = Inr s'"
    from al have lt: "sys_call_table s < ULONG_MAX" by (rule aligned_lt_max)
    from lt eq y have nz: "sys_call_table s \<noteq> 0"
      by (auto simp: load_def split: if_splits)
    from lt eq y nz have mp: "mapped s (slot (sys_call_table s) (NR_close k))"
      by (auto simp: load_def split: if_splits)
    show "sys_call_table s' \<noteq> 0"
    proof (cases "mem s (slot (sys_call_table s) (NR_close k)) = sys_close k")
      case True
      with lt nz mp eq y show ?thesis by (auto simp: load_def)
    next
      case False
      let ?n = "s\<lparr>sys_call_table := sys_call_table s + 8\<rparr>"
      from lt nz mp False eq have "f k ?n = Some y"
        by (simp add: load_def)
      moreover from al have "8 dvd sys_call_table ?n" by simp
      ultimately show ?thesis using IH y by blast
    qed
  qed
qed

lemma get_syscall_table_aligned_not_null:
  assumes "8 dvd PAGE_OFFSET k" and "get_syscall_table k s = Some (Inr s')"
  shows "sys_call_table s' \<noteq> 0"
  using scan_loop_aligned_not_null [OF assms(2) [unfolded get_syscall_table_def]] assms(1)
  by simp

subsection \<open>The two outcomes of slowdisk_init\<close>

text \<open>
  The error return of lines 63 to 66: when the search returns with \<open>NULL\<close>,
  slowdisk_init returns \<open>-1\<close> and leaves the state it started from with the wait
  range normalized and \<open>sys_call_table = NULL\<close>. By
  \<open>get_syscall_table_aligned_not_null\<close> no kernel whose \<open>PAGE_OFFSET\<close> is a
  multiple of 8 takes this return.
\<close>

lemma slowdisk_init_failure:
  assumes "get_syscall_table k (normalize_range s) = Some (Inr s1)"
    and "sys_call_table s1 = 0"
  shows "slowdisk_init k s = Some (Inr (- 1, (normalize_range s)\<lparr>sys_call_table := 0\<rparr>))"
proof -
  have "s1 = (normalize_range s)\<lparr>sys_call_table := 0\<rparr>"
    using get_syscall_table_result(1) [OF assms(1)] assms(2) by simp
  then show ?thesis using assms by (simp add: slowdisk_init_def)
qed

lemma slowdisk_init_success:
  assumes "slowdisk_init k s = Some (Inr (0, s'))"
  shows "sys_call_table s' \<noteq> 0"
    and "mem s (slot (sys_call_table s') (NR_close k)) = sys_close k"
    and "s' = (normalize_range s)\<lparr>sys_call_table := sys_call_table s',
            orig_sys_write := mem s (slot (sys_call_table s') (NR_write k)),
            orig_sys_read := mem s (slot (sys_call_table s') (NR_read k)),
            mem := (mem s)(slot (sys_call_table s') (NR_write k) := write_hook_addr k,
                           slot (sys_call_table s') (NR_read k) := read_hook_addr k),
            maxWait := maxWait (normalize_range s) + 1\<rparr>"
    and "mapped s (slot (sys_call_table s') (NR_read k))"
    and "mapped s (slot (sys_call_table s') (NR_write k))"
proof -
  from assms obtain s1 where g: "get_syscall_table k (normalize_range s) = Some (Inr s1)"
    by (auto simp: slowdisk_init_def split: option.splits sum.splits)
  from assms g have nz: "sys_call_table s1 \<noteq> 0"
    by (auto simp: slowdisk_init_def split: if_splits)
  from assms g nz obtain s2 where i: "install_hooks k s1 = Inr s2"
    by (auto simp: slowdisk_init_def split: sum.splits)
  note mp = install_hooks_returns(2,3) [OF i]
  note r = get_syscall_table_result [OF g]
  from assms g nz have s':
    "s' = (s1\<lparr>orig_sys_write := mem s1 (slot (sys_call_table s1) (NR_write k)),
       orig_sys_read := mem s1 (slot (sys_call_table s1) (NR_read k)),
       mem := (mem s1)(slot (sys_call_table s1) (NR_write k) := write_hook_addr k,
                      slot (sys_call_table s1) (NR_read k) := read_hook_addr k)\<rparr>)
       \<lparr>maxWait := maxWait s1 + 1\<rparr>"
    by (simp add: slowdisk_init_def install_hooks_eq [OF nz mp])
  then have t: "sys_call_table s' = sys_call_table s1" by simp
  from nz t show "sys_call_table s' \<noteq> 0" by simp
  from r(2) [OF nz] t show "mem s (slot (sys_call_table s') (NR_close k)) = sys_close k"
    by simp
  have m: "mem s1 = mem s" "maxWait s1 = maxWait (normalize_range s)" "mapped s1 = mapped s"
    by (subst r(1), simp)+
  from mp show "mapped s (slot (sys_call_table s') (NR_read k))"
    and "mapped s (slot (sys_call_table s') (NR_write k))"
    by (simp_all add: m t)
  show "s' = (normalize_range s)\<lparr>sys_call_table := sys_call_table s',
            orig_sys_write := mem s (slot (sys_call_table s') (NR_write k)),
            orig_sys_read := mem s (slot (sys_call_table s') (NR_read k)),
            mem := (mem s)(slot (sys_call_table s') (NR_write k) := write_hook_addr k,
                           slot (sys_call_table s') (NR_read k) := read_hook_addr k),
            maxWait := maxWait (normalize_range s) + 1\<rparr>"
    unfolding t by (subst s', subst (1 2 3 4 5) r(1)) (simp add: m)
qed

subsection \<open>The concrete kernel\<close>

lemma get_syscall_table_loaded:
  "get_syscall_table x86_64 (loaded lo hi) = Some (Inr (located lo hi))"
  unfolding get_syscall_table_def located_def
  apply (subst scan_loop.simps)
  apply (simp add: x86_64_def loaded_def load_def slot_def ULONG_MAX_def)
  apply (subst scan_loop.simps)
  apply (simp add: x86_64_def loaded_def load_def slot_def ULONG_MAX_def)
  apply (subst scan_loop.simps)
  apply (simp add: x86_64_def loaded_def load_def slot_def ULONG_MAX_def)
  done

lemma install_hooks_located:
  "install_hooks x86_64 (located lo hi) = Inr (hooked lo hi)"
proof -
  have "sys_call_table (located lo hi) \<noteq> 0"
    by (simp add: located_def)
  moreover have "mapped (located lo hi) (slot (sys_call_table (located lo hi)) (NR_read x86_64))"
    and "mapped (located lo hi) (slot (sys_call_table (located lo hi)) (NR_write x86_64))"
    by (simp_all add: located_def loaded_def)
  ultimately show ?thesis
    by (simp add: install_hooks_eq)
      (simp add: hooked_def located_def loaded_def x86_64_def slot_def fun_eq_iff)
qed

lemma slowdisk_init_loaded:
  "lo \<le> hi \<Longrightarrow>
   slowdisk_init x86_64 (loaded lo hi) =
     Some (Inr (0, hooked lo ((if hi = 0 then 1 else hi) + 1)))"
proof -
  assume le: "lo \<le> hi"
  have n: "normalize_range (loaded lo hi) = loaded lo (if hi = 0 then 1 else hi)"
    using le by (auto simp: normalize_range_def loaded_def)
  have z: "sys_call_table (located lo (if hi = 0 then 1 else hi)) \<noteq> 0"
    by (simp add: located_def)
  show ?thesis
    unfolding slowdisk_init_def n get_syscall_table_loaded
    using z by (simp add: install_hooks_located) (simp add: hooked_def)
qed

lemma tableless_fields [simp]:
  "minWait (tableless lo hi) = lo"
  "maxWait (tableless lo hi) = hi"
  "sys_call_table (tableless lo hi) = 0"
  by (simp_all add: tableless_def)

lemma hooked_fields [simp]:
  "minWait (hooked lo hi) = lo"
  "maxWait (hooked lo hi) = hi"
  "sys_call_table (hooked lo hi) = 0xffff880000000010"
  "orig_sys_write (hooked lo hi) = 0xffffffff811b4ab0"
  "orig_sys_read (hooked lo hi) = 0xffffffff811b4a10"
  by (simp_all add: hooked_def)

subsection \<open>The busy-work loop\<close>

lemma busy_loop_count:
  "i \<le> wait \<Longrightarrow> snd (busy_loop wait i d n) = n + (unat wait - unat i)"
proof (induction wait i d n rule: busy_loop.induct)
  case (1 wait i dumbSum n)
  show ?case
  proof (cases "i < wait")
    case True
    then have s: "unat (i + 1) = Suc (unat i)" by unat_arith
    from True have le: "i + 1 \<le> wait" by unat_arith
    from True have lt: "unat i < unat wait" by (simp add: word_less_nat_alt)
    have "snd (busy_loop wait i dumbSum n) =
        snd (busy_loop wait (i + 1) ((dumbSum + i) * (i div 2)) (Suc n))"
      using True by (subst busy_loop.simps) simp
    also have "\<dots> = Suc n + (unat wait - unat (i + 1))"
      using "1.IH" [OF True le] .
    also have "\<dots> = n + (unat wait - unat i)"
      using s lt by simp
    finally show ?thesis .
  next
    case False
    with "1.prems" have "i = wait" by simp
    then show ?thesis by (subst busy_loop.simps) simp
  qed
qed

lemma random_wait_eq:
  "random_wait s r =
     (if maxWait s - minWait s = 0 then Inl DivideError
      else Inr (r mod (maxWait s - minWait s) + minWait s,
                unat (r mod (maxWait s - minWait s) + minWait s)))"
  by (simp add: random_wait_def Let_def busy_loop_count)

subsection \<open>The range of the wait, away from the two ends of ulong\<close>

lemma wait_value_bounds:
  fixes lo hi r :: ulong
  assumes le: "lo \<le> hi" and nm: "hi \<noteq> - 1"
  shows "hi + 1 - lo \<noteq> 0"
    and "lo \<le> r mod (hi + 1 - lo) + lo"
    and "r mod (hi + 1 - lo) + lo \<le> hi"
proof -
  let ?d = "hi + 1 - lo"
  have "hi < - 1"
    using nm by (simp add: word_order.not_eq_extremum)
  then have h1: "unat (hi + 1) = unat hi + 1"
    by unat_arith
  have ul: "unat lo \<le> unat hi"
    using le by (simp add: word_le_nat_alt)
  have "lo \<le> hi + 1"
    using h1 ul by (simp add: word_le_nat_alt)
  then have d: "unat ?d = unat hi + 1 - unat lo"
    using h1 by (simp add: unat_sub)
  then have dpos: "0 < unat ?d" using ul by simp
  then show "?d \<noteq> 0" by auto
  have "unat (r mod ?d) = unat r mod unat ?d" by (rule unat_mod)
  then have m: "unat (r mod ?d) < unat ?d" using dpos by simp
  have hb: "unat hi < 2 ^ 64" using unsigned_less [of hi] by simp
  have "unat (r mod ?d) + unat lo < 2 ^ LENGTH(64)"
    using m d ul hb by simp
  then have s: "unat (r mod ?d + lo) = unat (r mod ?d) + unat lo"
    by (simp only: unat_add_lem)
  show "lo \<le> r mod ?d + lo" by (simp add: word_le_nat_alt s)
  show "r mod ?d + lo \<le> hi" using m d ul by (simp add: word_le_nat_alt s)
qed

text \<open>
  For a configured range with \<open>minWait \<le> maxWait\<close> whose \<open>maxWait\<close> is neither 0 nor
  \<open>ULONG_MAX\<close>, every call of random_wait after a successful load returns a value
  between the configured bounds, both included.
\<close>

lemma random_wait_in_range:
  assumes "minWait s \<le> maxWait s" and "maxWait s \<noteq> 0" and "maxWait s \<noteq> ULONG_MAX"
    and "slowdisk_init k s = Some (Inr (0, s'))"
  shows "\<exists>v. random_wait s' r = Inr (v, unat v) \<and> minWait s \<le> v \<and> v \<le> maxWait s"
proof -
  have n: "normalize_range s = s"
    using assms(1,2) by (simp add: normalize_range_def)
  have lo: "minWait s' = minWait s" and hi: "maxWait s' = maxWait s + 1"
    by (subst slowdisk_init_success(3) [OF assms(4)], simp add: n)+
  from assms(3) have nm: "maxWait s \<noteq> - 1" by (simp add: ULONG_MAX_def)
  note b = wait_value_bounds(1) [OF assms(1) nm]
    wait_value_bounds(2,3) [OF assms(1) nm, where r = r]
  show ?thesis
    using b by (simp add: random_wait_eq lo hi)
qed

text \<open>
  After a successful load the divisor of random_wait is zero for one configuration
  only: \<open>minWait = 0\<close> with \<open>maxWait = ULONG_MAX\<close>.
\<close>

lemma wait_interval_nonzero:
  assumes "slowdisk_init k s = Some (Inr (0, s'))"
    and "\<not> (minWait s = 0 \<and> maxWait s = ULONG_MAX)"
  shows "maxWait s' - minWait s' \<noteq> 0"
proof -
  have lo: "minWait s' = minWait (normalize_range s)"
    and hi: "maxWait s' = maxWait (normalize_range s) + 1"
    by (subst slowdisk_init_success(3) [OF assms(1)], simp)+
  show ?thesis
  proof (cases "maxWait s < minWait s")
    case True
    then show ?thesis by (simp add: lo hi normalize_range_def)
  next
    case False
    then have le: "minWait s \<le> maxWait s" by simp
    show ?thesis
    proof (cases "maxWait s = 0")
      case True
      with le have "minWait s = 0" by simp
      with True show ?thesis by (simp add: lo hi normalize_range_def)
    next
      case nz: False
      have n: "normalize_range s = s"
        using le nz by (simp add: normalize_range_def)
      show ?thesis
      proof (cases "maxWait s = - 1")
        case True
        with assms(2) have "minWait s \<noteq> 0" by (simp add: ULONG_MAX_def)
        with True show ?thesis by (simp add: lo hi n)
      next
        case False
        from wait_value_bounds(1) [OF le False] show ?thesis by (simp add: lo hi n)
      qed
    qed
  qed
qed

subsection \<open>The hooks when the delay returns\<close>

text \<open>
  In a state where the divisor of random_wait is not zero, the two hooks return what
  the saved original handler returns on the same arguments, and leave the world as
  that handler leaves it, whatever random value the delay draws.
\<close>

lemma hooks_forward:
  "maxWait s - minWait s \<noteq> 0 \<Longrightarrow>
     write_hook call s r fd buf count w = Inr (call (orig_sys_write s) fd buf count w) \<and>
     read_hook call s r fd buf count w = Inr (call (orig_sys_read s) fd buf count w)"
  by (simp add: write_hook_def read_hook_def random_wait_eq)

section \<open>The delay generator\<close>

text \<open>
  C8. Every call of random_wait that returns has run its busy-work loop exactly as many
  times as the value it returns; and it returns whenever its divisor
  \<open>maxWait - minWait\<close> is not zero.
\<close>

theorem random_wait_iterations:
  "maxWait s - minWait s \<noteq> 0 \<Longrightarrow> \<exists>v. random_wait s r = Inr (v, unat v)"
  by (simp add: random_wait_eq)

theorem random_wait_iterations_witness:
  "maxWait (hooked 2 6) - minWait (hooked 2 6) \<noteq> 0 \<and>
   random_wait (hooked 2 6) 11 = Inr (5, 5) \<and>
   snd (busy_loop 5 0 0 0) = 5"
proof -
  have nz: "maxWait (hooked 2 6) - minWait (hooked 2 6) \<noteq> 0" by simp
  have e: "random_wait (hooked 2 6) 11 = Inr (5, snd (busy_loop 5 0 0 0))"
    by (simp add: random_wait_def)
  from random_wait_iterations [OF nz, of 11] obtain v
    where v: "random_wait (hooked 2 6) 11 = Inr (v, unat v)" ..
  with e have "Inr (v, unat v) = (Inr (5, snd (busy_loop 5 0 0 0)) :: fault + ulong \<times> nat)"
    by (simp only:)
  then have v5: "v = 5" and c: "snd (busy_loop 5 0 0 0) = unat v"
    by auto
  from c have n5: "snd (busy_loop 5 0 0 0) = 5" unfolding v5 by simp
  from e have "random_wait (hooked 2 6) 11 = Inr (5, 5)" unfolding n5 .
  with nz n5 show ?thesis by simp
qed

text \<open>
  C1. The claim: for every configured range with \<open>minWait \<le> maxWait\<close>, every call of
  random_wait after startup returns a value between the configured \<open>minWait\<close> and
  \<open>maxWait\<close>. Two configurations break it. Loaded with \<open>minWait = 0\<close> and
  \<open>maxWait = ULONG_MAX\<close>, which normalization leaves as it is, the module ends its
  startup with \<open>maxWait = 0\<close> and random_wait divides by zero instead of returning.
  Loaded with \<open>minWait = maxWait = 0\<close>, it ends its startup with \<open>maxWait = 2\<close>, and
  the call that draws the random value 3 returns 1, above the configured \<open>maxWait = 0\<close>.
  When \<open>maxWait\<close> is neither 0 nor \<open>ULONG_MAX\<close> the claim holds: lemma
  \<open>random_wait_in_range\<close>.
\<close>

theorem random_wait_outside_configured_range:
  "minWait (loaded 0 (- 1)) \<le> maxWait (loaded 0 (- 1)) \<and>
   normalize_range (loaded 0 (- 1)) = loaded 0 (- 1) \<and>
   slowdisk_init x86_64 (loaded 0 (- 1)) = Some (Inr (0, hooked 0 0)) \<and>
   random_wait (hooked 0 0) 3 = Inl DivideError \<and>
   minWait (loaded 0 0) \<le> maxWait (loaded 0 0) \<and> maxWait (loaded 0 0) = 0 \<and>
   slowdisk_init x86_64 (loaded 0 0) = Some (Inr (0, hooked 0 2)) \<and>
   random_wait (hooked 0 2) 3 = Inr (1, 1)"
  using slowdisk_init_loaded [of 0 0] slowdisk_init_loaded [of 0 "- 1"]
  by (simp add: random_wait_eq normalize_range_def loaded_def)

text \<open>
  C3. The claim: with \<open>maxWait = 0\<close> at startup, normalization sets \<open>maxWait\<close> to 1 and
  every later call of random_wait returns 0. Normalization does set \<open>maxWait\<close> to 1, but
  the increment at the end of slowdisk_init then makes it 2, and the call that draws the
  random value 1 returns 1.
\<close>

theorem random_wait_zero_max_returns_one:
  "normalize_range (loaded 0 0) = loaded 0 1 \<and>
   slowdisk_init x86_64 (loaded 0 0) = Some (Inr (0, hooked 0 2)) \<and>
   random_wait (hooked 0 2) 1 = Inr (1, 1)"
  using slowdisk_init_loaded [of 0 0]
  by (simp add: random_wait_eq normalize_range_def loaded_def)

text \<open>
  C9. The claim: after a successful slowdisk_init the divisor \<open>maxWait - minWait\<close> of
  random_wait is at least 1. The module loaded with \<open>minWait = 0\<close> and
  \<open>maxWait = ULONG_MAX\<close> ends its startup with \<open>maxWait\<close> wrapped around to 0: the
  divisor is 0 and every call of random_wait is a divide error. For every other
  configuration the divisor is not zero: lemma \<open>wait_interval_nonzero\<close>.
\<close>

theorem wait_interval_zero_after_init:
  "slowdisk_init x86_64 (loaded 0 (- 1)) = Some (Inr (0, hooked 0 0)) \<and>
   maxWait (hooked 0 0) - minWait (hooked 0 0) = 0 \<and>
   random_wait (hooked 0 0) r = Inl DivideError"
  using slowdisk_init_loaded [of 0 "- 1"] by (simp add: random_wait_eq)

section \<open>The hooks\<close>

text \<open>
  C2. The claim: for every \<open>(fd, buf, count)\<close>, write_hook and read_hook invoke the
  saved original handler with these arguments and return its result. The module loaded
  with \<open>minWait = 0\<close> and \<open>maxWait = ULONG_MAX\<close> ends its startup with the divisor of
  random_wait at 0; there, for every argument triple and every random draw, both hooks
  stop in the divide error of random_wait and never reach the saved handler. In every
  state with a divisor other than 0 the claim holds: lemma \<open>hooks_forward\<close>.
\<close>

theorem hooks_divide_error_after_load:
  "slowdisk_init x86_64 (loaded 0 (- 1)) = Some (Inr (0, hooked 0 0)) \<and>
   write_hook call (hooked 0 0) r fd buf count w = Inl DivideError \<and>
   read_hook call (hooked 0 0) r fd buf count w = Inl DivideError"
  using slowdisk_init_loaded [of 0 "- 1"]
  by (simp add: write_hook_def read_hook_def random_wait_eq)

section \<open>The search for the table\<close>

text \<open>
  C4. The claim: in a memory without the anchor, get_syscall_table terminates and sets
  \<open>sys_call_table\<close> to \<open>NULL\<close>. On the x86-64 kernel, in a memory that holds no table,
  the search never leaves its loop through the exit that assigns \<open>NULL\<close>: the pointer
  stays a multiple of 8, is never \<open>ULONG_MAX\<close>, wraps around to address 0 and is
  dereferenced there. Where some address on the way is not mapped, the search stops
  there in a page fault instead: lemma \<open>get_syscall_table_no_anchor\<close>.
\<close>

theorem get_syscall_table_tableless:
  "get_syscall_table x86_64 (tableless 500 1000) = Some (Inl NullDeref)"
proof -
  have "\<forall>q. mem (tableless 500 1000) (slot q (NR_close x86_64)) \<noteq> sys_close x86_64"
    by (simp add: tableless_def x86_64_def)
  moreover have "8 dvd PAGE_OFFSET x86_64"
  proof -
    have "(8::ulong) dvd 8 * 0x1ffff10000000000" by (rule dvd_triv_left)
    moreover have "(8::ulong) * 0x1ffff10000000000 = 0xffff880000000000" by simp
    ultimately have "(8::ulong) dvd 0xffff880000000000" by (simp only:)
    then show ?thesis by (simp add: x86_64_def)
  qed
  ultimately obtain f where f: "get_syscall_table x86_64 (tableless 500 1000) = Some (Inl f)"
    and n: "(\<forall>a. mapped (tableless 500 1000) a) \<longrightarrow> f = NullDeref"
    using get_syscall_table_no_anchor by blast
  have "\<forall>a. mapped (tableless 500 1000) a" by (simp add: tableless_def)
  with n have "f = NullDeref" by simp
  with f show ?thesis by simp
qed

section \<open>Loading and unloading\<close>

text \<open>
  C6. From every state whose table pointer is not \<open>NULL\<close> and whose read and write
  slots are mapped, the patching step of slowdisk_init returns: it has saved the two
  entries as originals and put the hooks into the slots. slowdisk_exit then returns and
  leaves the read slot and the write slot, indeed the whole memory, as they were before
  the patch; slowdisk_exit run once more returns and changes nothing.
\<close>

theorem install_restore_roundtrip:
  assumes "sys_call_table s \<noteq> 0"
    and "mapped s (slot (sys_call_table s) (NR_read k))"
    and "mapped s (slot (sys_call_table s) (NR_write k))"
  shows "\<exists>s1 s2. install_hooks k s = Inr s1 \<and>
           orig_sys_read s1 = mem s (slot (sys_call_table s) (NR_read k)) \<and>
           orig_sys_write s1 = mem s (slot (sys_call_table s) (NR_write k)) \<and>
           mem s1 (slot (sys_call_table s) (NR_read k)) = read_hook_addr k \<and>
           mem s1 (slot (sys_call_table s) (NR_write k))
             = (if slot (sys_call_table s) (NR_write k) = slot (sys_call_table s) (NR_read k)
                then read_hook_addr k else write_hook_addr k) \<and>
           slowdisk_exit k s1 = Inr s2 \<and>
           mem s2 (slot (sys_call_table s) (NR_read k))
             = mem s (slot (sys_call_table s) (NR_read k)) \<and>
           mem s2 (slot (sys_call_table s) (NR_write k))
             = mem s (slot (sys_call_table s) (NR_write k)) \<and>
           mem s2 = mem s \<and>
           slowdisk_exit k s2 = Inr s2"
proof -
  let ?t = "sys_call_table s"
  let ?s1 = "s\<lparr>orig_sys_write := mem s (slot ?t (NR_write k)),
            orig_sys_read := mem s (slot ?t (NR_read k)),
            mem := (mem s)(slot ?t (NR_write k) := write_hook_addr k,
                           slot ?t (NR_read k) := read_hook_addr k)\<rparr>"
  let ?s2 = "?s1\<lparr>mem := (mem ?s1)
            (slot (sys_call_table ?s1) (NR_write k) := orig_sys_write ?s1,
             slot (sys_call_table ?s1) (NR_read k) := orig_sys_read ?s1)\<rparr>"
  have i: "install_hooks k s = Inr ?s1"
    using assms by (rule install_hooks_eq)
  have p1: "sys_call_table ?s1 \<noteq> 0"
    "mapped ?s1 (slot (sys_call_table ?s1) (NR_read k))"
    "mapped ?s1 (slot (sys_call_table ?s1) (NR_write k))"
    using assms by simp_all
  have e1: "slowdisk_exit k ?s1 = Inr ?s2"
    using p1 by (rule slowdisk_exit_eq)
  have m: "mem ?s2 = mem s"
    by (auto simp: fun_eq_iff)
  have p2: "sys_call_table ?s2 \<noteq> 0"
    "mapped ?s2 (slot (sys_call_table ?s2) (NR_read k))"
    "mapped ?s2 (slot (sys_call_table ?s2) (NR_write k))"
    using assms by simp_all
  have "slowdisk_exit k ?s2 = Inr (?s2\<lparr>mem := (mem ?s2)
            (slot (sys_call_table ?s2) (NR_write k) := orig_sys_write ?s2,
             slot (sys_call_table ?s2) (NR_read k) := orig_sys_read ?s2)\<rparr>)"
    using p2 by (rule slowdisk_exit_eq)
  also have "(?s2\<lparr>mem := (mem ?s2)
            (slot (sys_call_table ?s2) (NR_write k) := orig_sys_write ?s2,
             slot (sys_call_table ?s2) (NR_read k) := orig_sys_read ?s2)\<rparr>) = ?s2"
    by (auto simp: fun_eq_iff)
  finally have e2: "slowdisk_exit k ?s2 = Inr ?s2" .
  from i e1 m e2 show ?thesis by (intro exI [of _ ?s1] exI [of _ ?s2]) simp
qed

text \<open>
  The witness patches a table whose read and write slots hold the two original
  handlers, not the hooks: the patch changes both slots and the restore changes them
  back.
\<close>

theorem install_restore_roundtrip_witness:
  "sys_call_table (located 500 1000) \<noteq> 0 \<and>
   mapped (located 500 1000) (slot (sys_call_table (located 500 1000)) (NR_read x86_64)) \<and>
   mapped (located 500 1000) (slot (sys_call_table (located 500 1000)) (NR_write x86_64)) \<and>
   mem (located 500 1000) (slot (sys_call_table (located 500 1000)) (NR_read x86_64))
     = 0xffffffff811b4a10 \<and>
   mem (located 500 1000) (slot (sys_call_table (located 500 1000)) (NR_write x86_64))
     = 0xffffffff811b4ab0 \<and>
   install_hooks x86_64 (located 500 1000) = Inr (hooked 500 1000) \<and>
   mem (hooked 500 1000) (slot (sys_call_table (located 500 1000)) (NR_read x86_64))
     = 0xffffffffa0000140 \<and>
   mem (hooked 500 1000) (slot (sys_call_table (located 500 1000)) (NR_write x86_64))
     = 0xffffffffa0000100 \<and>
   (\<exists>s2. slowdisk_exit x86_64 (hooked 500 1000) = Inr s2 \<and>
      mem s2 (slot (sys_call_table (located 500 1000)) (NR_read x86_64))
        = 0xffffffff811b4a10 \<and>
      mem s2 (slot (sys_call_table (located 500 1000)) (NR_write x86_64))
        = 0xffffffff811b4ab0 \<and>
      mem s2 = mem (located 500 1000) \<and>
      slowdisk_exit x86_64 s2 = Inr s2)"
proof -
  let ?S = "located 500 1000"
  let ?r = "slot (sys_call_table ?S) (NR_read x86_64)"
  let ?w = "slot (sys_call_table ?S) (NR_write x86_64)"
  have nz: "sys_call_table ?S \<noteq> 0" by (simp add: located_def)
  have mr: "mapped ?S ?r" and mw: "mapped ?S ?w"
    by (simp_all add: located_def loaded_def)
  have r0: "mem ?S ?r = 0xffffffff811b4a10" and w0: "mem ?S ?w = 0xffffffff811b4ab0"
    by (simp_all add: located_def loaded_def slot_def x86_64_def)
  have r1: "mem (hooked 500 1000) ?r = 0xffffffffa0000140"
    and w1: "mem (hooked 500 1000) ?w = 0xffffffffa0000100"
    by (simp_all add: located_def loaded_def hooked_def slot_def x86_64_def)
  have i: "install_hooks x86_64 ?S = Inr (hooked 500 1000)"
    by (rule install_hooks_located)
  from install_restore_roundtrip [OF nz mr mw] obtain s1 s2
    where a: "install_hooks x86_64 ?S = Inr s1"
      and b: "slowdisk_exit x86_64 s1 = Inr s2"
      and c: "mem s2 ?r = mem ?S ?r" "mem s2 ?w = mem ?S ?w" "mem s2 = mem ?S"
      and d: "slowdisk_exit x86_64 s2 = Inr s2"
    by blast
  from a i have "s1 = hooked 500 1000" by simp
  with b c d r0 w0
  have "\<exists>s2. slowdisk_exit x86_64 (hooked 500 1000) = Inr s2 \<and>
      mem s2 ?r = 0xffffffff811b4a10 \<and> mem s2 ?w = 0xffffffff811b4ab0 \<and>
      mem s2 = mem ?S \<and> slowdisk_exit x86_64 s2 = Inr s2"
    by auto
  with nz mr mw r0 w0 i r1 w1 show ?thesis by blast
qed

text \<open>
  C10. slowdisk_exit has no null check: run with \<open>sys_call_table = NULL\<close> it
  dereferences \<open>NULL\<close>. After a slowdisk_init that returned 0, \<open>sys_call_table\<close> is not
  \<open>NULL\<close>, the two original-handler variables hold the entries the table had before
  the load, and slowdisk_exit returns without a fault, with the memory as it was before
  the load.
\<close>

theorem slowdisk_exit_needs_table:
  "(sys_call_table s = 0 \<longrightarrow> slowdisk_exit k s = Inl NullDeref) \<and>
   (slowdisk_init k s0 = Some (Inr (0, s1)) \<longrightarrow>
      sys_call_table s1 \<noteq> 0 \<and>
      orig_sys_read s1 = mem s0 (slot (sys_call_table s1) (NR_read k)) \<and>
      orig_sys_write s1 = mem s0 (slot (sys_call_table s1) (NR_write k)) \<and>
      (\<exists>s2. slowdisk_exit k s1 = Inr s2 \<and> mem s2 = mem s0))"
proof (intro conjI impI)
  assume "sys_call_table s = 0"
  then show "slowdisk_exit k s = Inl NullDeref" by (rule slowdisk_exit_null)
next
  assume a: "slowdisk_init k s0 = Some (Inr (0, s1))"
  note r = slowdisk_init_success [OF a]
  show nz: "sys_call_table s1 \<noteq> 0" by (rule r(1))
  show rd: "orig_sys_read s1 = mem s0 (slot (sys_call_table s1) (NR_read k))"
    by (subst r(3)) simp
  show wr: "orig_sys_write s1 = mem s0 (slot (sys_call_table s1) (NR_write k))"
    by (subst r(3)) simp
  have ms: "mem s1 = (mem s0)(slot (sys_call_table s1) (NR_write k) := write_hook_addr k,
                           slot (sys_call_table s1) (NR_read k) := read_hook_addr k)"
    by (subst r(3)) simp
  have mp: "mapped s1 = mapped s0"
    by (subst r(3)) simp
  have "mem (s1\<lparr>mem := (mem s1)
            (slot (sys_call_table s1) (NR_write k) := orig_sys_write s1,
             slot (sys_call_table s1) (NR_read k) := orig_sys_read s1)\<rparr>) = mem s0"
    by (auto simp: fun_eq_iff rd wr ms)
  moreover have "mapped s1 (slot (sys_call_table s1) (NR_read k))"
    and "mapped s1 (slot (sys_call_table s1) (NR_write k))"
    using r(4,5) by (simp_all add: mp)
  note slowdisk_exit_eq [OF nz this, of]
  ultimately show "\<exists>s2. slowdisk_exit k s1 = Inr s2 \<and> mem s2 = mem s0" by blast
qed

theorem slowdisk_exit_needs_table_witness:
  "sys_call_table (tableless 500 1000) = 0 \<and>
   slowdisk_exit x86_64 (tableless 500 1000) = Inl NullDeref \<and>
   slowdisk_init x86_64 (loaded 500 1000) = Some (Inr (0, hooked 500 1001)) \<and>
   sys_call_table (hooked 500 1001) \<noteq> 0 \<and>
   orig_sys_read (hooked 500 1001) = 0xffffffff811b4a10 \<and>
   orig_sys_write (hooked 500 1001) = 0xffffffff811b4ab0 \<and>
   (\<exists>s2. slowdisk_exit x86_64 (hooked 500 1001) = Inr s2 \<and> mem s2 = mem (loaded 500 1000))"
proof -
  have z: "sys_call_table (tableless 500 1000) = 0" by simp
  have i: "slowdisk_init x86_64 (loaded 500 1000) = Some (Inr (0, hooked 500 1001))"
    using slowdisk_init_loaded [of 500 1000] by simp
  from slowdisk_exit_needs_table
    [of "tableless 500 1000" x86_64 "loaded 500 1000" "hooked 500 1001"] z i
  show ?thesis by simp
qed

end
